theory Spec2Isabelle
  imports
    Main
    "HOL-Library.AList"
    "HOL-Library.Char_ord"
    "HOL-Library.List_Lexorder"
    "HOL-Library.Sublist"
    "HOL-Library.Multiset"
begin

section \<open>CityFlow: storage backends, export shaping and manual sync\<close>

text \<open>
  This theory embeds the storage slice of the CityFlow repository:
  \<^item> \<^verbatim>\<open>utils/local_file_service.py\<close> (class \<^verbatim>\<open>LocalFileService\<close>),
  \<^item> \<^verbatim>\<open>utils/database_factory.py\<close> (the backend selector),
  \<^item> \<^verbatim>\<open>processors/main.py\<close> (function \<^verbatim>\<open>export_results\<close>),
  \<^item> \<^verbatim>\<open>upload_to_aws.py\<close> (class \<^verbatim>\<open>AWSUploader\<close>).
  Printing is left out everywhere; the clock is an explicit argument.
\<close>

subsection \<open>JSON values\<close>

text \<open>
  The indicator payloads are JSON trees. A Python \<^verbatim>\<open>dict\<close> is an association list in
  insertion order (\<^verbatim>\<open>d[k] = v\<close> is \<^const>\<open>AList.update\<close>: an existing key keeps its place,
  a new key goes to the end; \<^verbatim>\<open>d.get(k)\<close> is \<^const>\<open>map_of\<close>). \<^verbatim>\<open>None\<close> is \<open>JNull\<close>.
  Numbers are integers: floating point values are outside the model.
  Strings are byte strings; on UTF-8 text the bytewise lexicographic order of
  \<^theory_text>\<open>List_Lexorder\<close> and \<^theory_text>\<open>Char_ord\<close> is Python's order by code point.
\<close>

datatype json =
    JNull
  | JBool bool
  | JNum int
  | JStr string
  | JList "json list"
  | JDict "(string \<times> json) list"

text \<open>Python truthiness (\<^verbatim>\<open>not x\<close>, \<^verbatim>\<open>if x\<close>) of a JSON value.\<close>

fun truthy :: "json \<Rightarrow> bool" where
  "truthy JNull = False"
| "truthy (JBool b) = b"
| "truthy (JNum n) = (n \<noteq> 0)"
| "truthy (JStr s) = (s \<noteq> [])"
| "truthy (JList xs) = (xs \<noteq> [])"
| "truthy (JDict kvs) = (kvs \<noteq> [])"

text \<open>The exceptions (all subclasses of \<^verbatim>\<open>Exception\<close>) that the embedded code can raise.\<close>

datatype error =
  OSError | JSONDecodeError | TypeError | AttributeError | ImportError | ValueError | ClientError

subsection \<open>Python values and what \<^verbatim>\<open>json.dump\<close> makes of them\<close>

text \<open>
  \<^verbatim>\<open>save_metrics\<close> and \<^verbatim>\<open>save_report\<close> take a \<^verbatim>\<open>Dict[str, Any]\<close>: the values they are
  handed are Python values, not only JSON trees. A dict key is a string, an integer, a
  boolean, \<^verbatim>\<open>None\<close> or some other hashable value (a tuple, say); a value may be a
  tuple, or an object of a class \<^verbatim>\<open>json\<close> does not know (a \<^verbatim>\<open>date\<close>, a \<^verbatim>\<open>Path\<close>),
  given here by the text \<^verbatim>\<open>str\<close> returns for it. Floating point values and cyclic
  structures are outside the model.
\<close>

datatype pykey = KStr string | KInt int | KBool bool | KNone | KOther

datatype pyval =
    PNone
  | PBool bool
  | PInt int
  | PStr string
  | PList "pyval list"
  | PTuple "pyval list"
  | PDict "(pykey \<times> pyval) list"
  | PObject string

text \<open>A JSON tree as the Python value \<^verbatim>\<open>json.load\<close> returns for it.\<close>

primrec of_json :: "json \<Rightarrow> pyval" where
  "of_json JNull = PNone"
| "of_json (JBool b) = PBool b"
| "of_json (JNum n) = PInt n"
| "of_json (JStr s) = PStr s"
| "of_json (JList xs) = PList (map of_json xs)"
| "of_json (JDict kvs) = PDict (map (map_prod KStr of_json) kvs)"

text \<open>Decimal notation of an integer, as \<^verbatim>\<open>str\<close> prints it.\<close>

fun digits :: "nat \<Rightarrow> string" where
  "digits n =
     (if n < 10 then [char_of (48 + n)] else digits (n div 10) @ [char_of (48 + n mod 10)])"

definition str_int :: "int \<Rightarrow> string" where
  "str_int i = (if i < 0 then CHR ''-'' # digits (nat (- i)) else digits (nat i))"

text \<open>
  CPython refuses to print an integer of more than 4300 decimal digits
  (\<^verbatim>\<open>ValueError\<close>), in \<^verbatim>\<open>json.dump\<close> as elsewhere.
\<close>

definition int_too_long :: "int \<Rightarrow> bool" where
  "int_too_long n = (4300 < length (digits (nat \<bar>n\<bar>)))"

text \<open>
  The key \<^verbatim>\<open>json.dump\<close> writes for a dict key: a string stays, an integer is printed,
  \<^verbatim>\<open>True\<close>, \<^verbatim>\<open>False\<close> and \<^verbatim>\<open>None\<close> become \<open>true\<close>, \<open>false\<close> and \<open>null\<close>; any other key
  raises \<^verbatim>\<open>TypeError\<close> (\<^verbatim>\<open>default\<close> is not asked for keys).
\<close>

definition dump_key :: "pykey \<Rightarrow> error + string" where
  "dump_key k =
     (case k of
        KStr s \<Rightarrow> Inr s
      | KInt n \<Rightarrow> if int_too_long n then Inl ValueError else Inr (str_int n)
      | KBool b \<Rightarrow> Inr (if b then ''true'' else ''false'')
      | KNone \<Rightarrow> Inr ''null''
      | KOther \<Rightarrow> Inl TypeError)"

text \<open>The elements of a list in order, up to the first exception.\<close>

fun sequence :: "(error + 'a) list \<Rightarrow> error + 'a list" where
  "sequence [] = Inr []"
| "sequence (r # rs) =
     (case r of
        Inl e \<Rightarrow> Inl e
      | Inr x \<Rightarrow> (case sequence rs of Inl e \<Rightarrow> Inl e | Inr xs \<Rightarrow> Inr (x # xs)))"

text \<open>The items of a dict in order: the key first, then the value.\<close>

fun sequence_items :: "((error + 'k) \<times> (error + 'v)) list \<Rightarrow> error + ('k \<times> 'v) list" where
  "sequence_items [] = Inr []"
| "sequence_items ((k, v) # rs) =
     (case k of
        Inl e \<Rightarrow> Inl e
      | Inr k' \<Rightarrow>
          (case v of
             Inl e \<Rightarrow> Inl e
           | Inr v' \<Rightarrow>
               (case sequence_items rs of Inl e \<Rightarrow> Inl e | Inr xs \<Rightarrow> Inr ((k', v') # xs))))"

text \<open>
  The dict \<^verbatim>\<open>json.load\<close> builds from the members of a JSON object: a key that occurs
  again keeps its place and takes the later value.
\<close>

definition dict_of_items :: "(string \<times> json) list \<Rightarrow> (string \<times> json) list" where
  "dict_of_items items = foldl (\<lambda>d kv. AList.update (fst kv) (snd kv) d) [] items"

text \<open>
  \<^verbatim>\<open>json.dump(v, f, indent=2, ensure_ascii=False, default=str)\<close> followed by
  \<^verbatim>\<open>json.load\<close>: the JSON tree that is read back from what was written for the Python
  value \<open>v\<close>, or the exception \<^verbatim>\<open>json.dump\<close> raises. A tuple is written as a list, an
  unknown object as the string \<^verbatim>\<open>str\<close> gives, a key as \<^const>\<open>dump_key\<close> has it.
\<close>

primrec dumps_loads :: "pyval \<Rightarrow> error + json" where
  "dumps_loads PNone = Inr JNull"
| "dumps_loads (PBool b) = Inr (JBool b)"
| "dumps_loads (PInt n) = (if int_too_long n then Inl ValueError else Inr (JNum n))"
| "dumps_loads (PStr s) = Inr (JStr s)"
| "dumps_loads (PList xs) =
     (case sequence (map dumps_loads xs) of Inl e \<Rightarrow> Inl e | Inr js \<Rightarrow> Inr (JList js))"
| "dumps_loads (PTuple xs) =
     (case sequence (map dumps_loads xs) of Inl e \<Rightarrow> Inl e | Inr js \<Rightarrow> Inr (JList js))"
| "dumps_loads (PDict kvs) =
     (case sequence_items (map (map_prod dump_key dumps_loads) kvs) of
        Inl e \<Rightarrow> Inl e
      | Inr items \<Rightarrow> Inr (JDict (dict_of_items items)))"
| "dumps_loads (PObject s) = Inr (JStr s)"


subsection \<open>The local directories\<close>

text \<open>
  A stored file either cannot be read back as a JSON object (\<^verbatim>\<open>open\<close> or \<^verbatim>\<open>json.load\<close>
  raises, or the value has no \<^verbatim>\<open>get\<close>), or it is a document: the object \<^verbatim>\<open>json.load\<close>
  returns. The fields a reader looks at are optional (\<^verbatim>\<open>data.get\<close>); \<open>metric_type\<close>,
  \<open>date\<close> and \<open>timestamp\<close> are strings when present, the payload is any JSON value.
\<close>

datatype 'd content = Unreadable | Document 'd

record metrics_doc =
  doc_metric_type :: "string option"
  doc_date :: "string option"
  doc_timestamp :: "string option"
  doc_metrics :: "json option"

record report_doc =
  rep_report_id :: "string option"
  rep_date :: "string option"
  rep_timestamp :: "string option"
  rep_report :: "json option"

text \<open>
  The state of a \<^verbatim>\<open>LocalFileService\<close>: the entries of \<^verbatim>\<open>self.metrics_dir\<close> and
  \<^verbatim>\<open>self.reports_dir\<close> as (file name, content) in the order the directory enumerates
  them, and whether the operating system lets a name be opened for writing.
  File names are flat (no path separator in a data type or a date).
\<close>

record store =
  metrics_dir :: "(string \<times> metrics_doc content) list"
  reports_dir :: "(string \<times> report_doc content) list"
  writable :: "string \<Rightarrow> bool"

definition get_metrics_path :: "string \<Rightarrow> string \<Rightarrow> string" where
  "get_metrics_path data_type date = data_type @ ''_metrics_'' @ date @ ''.json''"

definition get_report_path :: "string \<Rightarrow> string" where
  "get_report_path date = ''daily_report_'' @ date @ ''.json''"

subsection \<open>\<^verbatim>\<open>LocalFileService\<close>: saving and loading\<close>

text \<open>
  \<^verbatim>\<open>save_metrics\<close>: \<^verbatim>\<open>open(file_path, 'w')\<close> raises when the name is not writable, the
  handler returns \<^verbatim>\<open>False\<close> and nothing was written. Otherwise the file is created or
  truncated. When \<^verbatim>\<open>json.dump\<close> then raises, the file is left with the part written so
  far, which is not a JSON document, and the handler returns \<^verbatim>\<open>False\<close>. Otherwise the
  file holds the wrapped record, its \<open>metrics\<close> as \<^verbatim>\<open>json.dump\<close> wrote them; \<open>now\<close> is
  \<^verbatim>\<open>datetime.now().isoformat()\<close>.
\<close>

definition save_metrics :: "string \<Rightarrow> store \<Rightarrow> pyval \<Rightarrow> string \<Rightarrow> string \<Rightarrow> bool \<times> store" where
  "save_metrics now st metrics data_type date =
     (let file_path = get_metrics_path data_type date
      in if writable st file_path
         then (case dumps_loads metrics of
                 Inl e \<Rightarrow>
                   (False, st\<lparr>metrics_dir := AList.update file_path Unreadable (metrics_dir st)\<rparr>)
               | Inr written \<Rightarrow>
                   (let data = \<lparr>doc_metric_type = Some data_type, doc_date = Some date,
                                doc_timestamp = Some now, doc_metrics = Some written\<rparr>
                    in (True, st\<lparr>metrics_dir :=
                                    AList.update file_path (Document data) (metrics_dir st)\<rparr>)))
         else (False, st))"

text \<open>The body of the \<^verbatim>\<open>try\<close> block of \<^verbatim>\<open>load_metrics\<close>, and the method with its handler.\<close>

definition load_metrics_try :: "store \<Rightarrow> string \<Rightarrow> string \<Rightarrow> error + json" where
  "load_metrics_try st data_type date =
     (case map_of (metrics_dir st) (get_metrics_path data_type date) of
        None \<Rightarrow> Inr JNull
      | Some Unreadable \<Rightarrow> Inl JSONDecodeError
      | Some (Document data) \<Rightarrow>
          Inr (case doc_metrics data of None \<Rightarrow> JNull | Some v \<Rightarrow> v))"

definition load_metrics :: "store \<Rightarrow> string \<Rightarrow> string \<Rightarrow> json" where
  "load_metrics st data_type date =
     (case load_metrics_try st data_type date of Inl e \<Rightarrow> JNull | Inr v \<Rightarrow> v)"

definition save_report :: "string \<Rightarrow> store \<Rightarrow> pyval \<Rightarrow> string \<Rightarrow> bool \<times> store" where
  "save_report now st report date =
     (let file_path = get_report_path date
      in if writable st file_path
         then (case dumps_loads report of
                 Inl e \<Rightarrow>
                   (False, st\<lparr>reports_dir := AList.update file_path Unreadable (reports_dir st)\<rparr>)
               | Inr written \<Rightarrow>
                   (let data = \<lparr>rep_report_id = Some (''daily_report_'' @ date),
                                rep_date = Some date, rep_timestamp = Some now,
                                rep_report = Some written\<rparr>
                    in (True, st\<lparr>reports_dir :=
                                    AList.update file_path (Document data) (reports_dir st)\<rparr>)))
         else (False, st))"

definition load_report_try :: "store \<Rightarrow> string \<Rightarrow> error + json" where
  "load_report_try st date =
     (case map_of (reports_dir st) (get_report_path date) of
        None \<Rightarrow> Inr JNull
      | Some Unreadable \<Rightarrow> Inl JSONDecodeError
      | Some (Document data) \<Rightarrow>
          Inr (case rep_report data of None \<Rightarrow> JNull | Some v \<Rightarrow> v))"

definition load_report :: "store \<Rightarrow> string \<Rightarrow> json" where
  "load_report st date =
     (case load_report_try st date of Inl e \<Rightarrow> JNull | Inr v \<Rightarrow> v)"


subsection \<open>\<^verbatim>\<open>LocalFileService\<close>: listing and range queries\<close>

text \<open>
  \<^verbatim>\<open>self.metrics_dir.glob(f"{data_type}_metrics_*.json")\<close>: the names that start with
  the data type and \<^verbatim>\<open>_metrics_\<close> and end, after that, with \<^verbatim>\<open>.json\<close> (the data type
  holds no glob metacharacter).
\<close>

definition glob_metrics :: "string \<Rightarrow> string \<Rightarrow> bool" where
  "glob_metrics data_type name =
     (let p = data_type @ ''_metrics_''
      in take (length p) name = p \<and> length p + 5 \<le> length name
         \<and> drop (length name - 5) name = ''.json'')"

text \<open>
  \<^verbatim>\<open>str.rfind\<close> of one character, and \<^verbatim>\<open>PurePath.stem\<close>: the name up to its last
  dot, when that dot is neither the first nor the last character.
\<close>

definition rfind :: "char \<Rightarrow> string \<Rightarrow> nat option" where
  "rfind c s =
     (if c \<in> set s then Some (length s - 1 - length (takeWhile (\<lambda>x. x \<noteq> c) (rev s)))
      else None)"

definition stem :: "string \<Rightarrow> string" where
  "stem name =
     (case rfind CHR ''.'' name of
        None \<Rightarrow> name
      | Some i \<Rightarrow> if 0 < i \<and> i + 1 < length name then take i name else name)"

text \<open>\<^verbatim>\<open>s.split(c)\<close> for a one-character separator.\<close>

fun split_on :: "char \<Rightarrow> string \<Rightarrow> string list" where
  "split_on c [] = [[]]"
| "split_on c (x # xs) =
     (if x = c then [] # split_on c xs
      else (case split_on c xs of [] \<Rightarrow> [[x]] | p # ps \<Rightarrow> (x # p) # ps))"

text \<open>
  The date both readers take from a file name: \<^verbatim>\<open>parts = file_path.stem.split('_')\<close>,
  and \<^verbatim>\<open>parts[-1]\<close> when \<^verbatim>\<open>len(parts) >= 3\<close>.
\<close>

definition date_of_file :: "string \<Rightarrow> string option" where
  "date_of_file name =
     (let parts = split_on CHR ''_'' (stem name)
      in if 3 \<le> length parts then Some (last parts) else None)"

text \<open>An element of the list a range query returns: \<^verbatim>\<open>{"date": ..., "metrics": ...}\<close>.\<close>

record entry =
  e_date :: string
  e_metrics :: json

definition entry_of :: "string \<Rightarrow> metrics_doc \<Rightarrow> entry" where
  "entry_of file_date data =
     \<lparr>e_date = (case doc_date data of None \<Rightarrow> file_date | Some d \<Rightarrow> d),
      e_metrics = (case doc_metrics data of None \<Rightarrow> JNull | Some v \<Rightarrow> v)\<rparr>"

text \<open>
  The \<^verbatim>\<open>for\<close> loop of \<^verbatim>\<open>query_metrics_by_date_range\<close> over the globbed files, with
  the list \<^verbatim>\<open>results\<close> it appends to. A file in the range that cannot be read raises.
\<close>

fun query_loop ::
  "string \<Rightarrow> string \<Rightarrow> (string \<times> metrics_doc content) list \<Rightarrow> entry list \<Rightarrow> error + entry list"
where
  "query_loop start_date end_date [] results = Inr results"
| "query_loop start_date end_date ((name, c) # files) results =
     (case date_of_file name of
        None \<Rightarrow> query_loop start_date end_date files results
      | Some file_date \<Rightarrow>
          if start_date \<le> file_date \<and> file_date \<le> end_date
          then (case c of
                  Unreadable \<Rightarrow> Inl JSONDecodeError
                | Document data \<Rightarrow>
                    query_loop start_date end_date files (results @ [entry_of file_date data]))
          else query_loop start_date end_date files results)"

text \<open>
  The method: on any exception the handler returns \<^verbatim>\<open>[]\<close>; otherwise the results are
  sorted by their \<open>date\<close> (\<^verbatim>\<open>list.sort\<close> is stable, as \<^const>\<open>sort_key\<close> is).
\<close>

definition query_metrics_by_date_range :: "store \<Rightarrow> string \<Rightarrow> string \<Rightarrow> string \<Rightarrow> entry list" where
  "query_metrics_by_date_range st data_type start_date end_date =
     (case query_loop start_date end_date
             (filter (\<lambda>f. glob_metrics data_type (fst f)) (metrics_dir st)) [] of
        Inl e \<Rightarrow> []
      | Inr results \<Rightarrow> sort_key e_date results)"

fun dates_loop :: "string list \<Rightarrow> string list \<Rightarrow> string list" where
  "dates_loop [] dates = dates"
| "dates_loop (name # names) dates =
     (case date_of_file name of
        None \<Rightarrow> dates_loop names dates
      | Some date \<Rightarrow> dates_loop names (dates @ [date]))"

definition list_available_dates :: "store \<Rightarrow> string \<Rightarrow> string list" where
  "list_available_dates st data_type =
     sort (dates_loop (filter (glob_metrics data_type) (map fst (metrics_dir st))) [])"

subsection \<open>The range query, as a selection on file names\<close>

text \<open>
  The range query as claim C10 words it, written without the loop: the files are chosen
  by the date in their name; the entry reported for a chosen document carries the
  document's own \<open>date\<close> when it has one and the date of the file name otherwise; one
  unreadable chosen file empties the answer; the entries are ordered by reported date.
\<close>

definition in_range :: "string \<Rightarrow> string \<Rightarrow> string \<Rightarrow> bool" where
  "in_range start_date end_date name =
     (case date_of_file name of
        None \<Rightarrow> False
      | Some file_date \<Rightarrow> start_date \<le> file_date \<and> file_date \<le> end_date)"

definition selected_files ::
  "store \<Rightarrow> string \<Rightarrow> string \<Rightarrow> string \<Rightarrow> (string \<times> metrics_doc content) list" where
  "selected_files st data_type start_date end_date =
     filter (\<lambda>f. glob_metrics data_type (fst f) \<and> in_range start_date end_date (fst f))
       (metrics_dir st)"

text \<open>The entry reported for a stored file, if it is a document with a dated name.\<close>

definition reported :: "string \<times> metrics_doc content \<Rightarrow> entry option" where
  "reported f =
     (case (date_of_file (fst f), snd f) of
        (Some file_date, Document data) \<Rightarrow>
          Some \<lparr>e_date = (case doc_date data of Some d \<Rightarrow> d | None \<Rightarrow> file_date),
                e_metrics = (case doc_metrics data of Some v \<Rightarrow> v | None \<Rightarrow> JNull)\<rparr>
      | _ \<Rightarrow> None)"

definition query_by_filename_date :: "store \<Rightarrow> string \<Rightarrow> string \<Rightarrow> string \<Rightarrow> entry list" where
  "query_by_filename_date st data_type start_date end_date =
     (let sel = selected_files st data_type start_date end_date
      in if list_ex (\<lambda>f. snd f = Unreadable) sel then []
         else sort_key e_date (List.map_filter reported sel))"

text \<open>
  A stored file is date-consistent when its document has no \<open>date\<close> of its own or the
  one its file name yields.
\<close>

definition date_consistent :: "string \<times> metrics_doc content \<Rightarrow> bool" where
  "date_consistent f =
     (case snd f of
        Unreadable \<Rightarrow> True
      | Document data \<Rightarrow>
          (case doc_date data of None \<Rightarrow> True | Some d \<Rightarrow> date_of_file (fst f) = Some d))"

text \<open>The names \<^verbatim>\<open>list_available_dates\<close> globs for a data type.\<close>

definition matching_names :: "store \<Rightarrow> string \<Rightarrow> string list" where
  "matching_names st data_type = filter (glob_metrics data_type) (map fst (metrics_dir st))"

subsection \<open>The backend selector (\<^verbatim>\<open>utils/database_factory.py\<close>)\<close>

text \<open>
  What the selector reads of its environment: the entries of the working directory
  (for \<^verbatim>\<open>Path("bucket-cityflow-paris-s3-raw").exists()\<close>), and what importing and
  constructing each service raises, if anything. The classes \<^verbatim>\<open>MongoDBService\<close>
  and \<^verbatim>\<open>DatabaseService\<close> are not part of the embedded sources, so the outcome of
  a construction is a field of the environment; \<open>aws_execution_env\<close> is the variable
  \<^verbatim>\<open>AWS_EXECUTION_ENV\<close> that \<^verbatim>\<open>export_results\<close> reads.
\<close>

record environment =
  cwd_entries :: "string list"
  mongodb_raises :: "error option"
  local_files_raises :: "error option"
  aws_execution_env :: "string option"

datatype service = MongoDBService | LocalFileService

definition service_kind :: "service \<Rightarrow> string" where
  "service_kind svc =
     (case svc of MongoDBService \<Rightarrow> ''mongodb'' | LocalFileService \<Rightarrow> ''local_files'')"

definition local_bucket :: string where
  "local_bucket = ''bucket-cityflow-paris-s3-raw''"

definition path_exists :: "environment \<Rightarrow> string \<Rightarrow> bool" where
  "path_exists env name = (name \<in> set (cwd_entries env))"

definition get_database_service :: "environment \<Rightarrow> error + service" where
  "get_database_service env =
     (let db_type = (if \<not> path_exists env local_bucket then ''local_files'' else ''mongodb'')
      in if db_type = ''mongodb''
         then (case mongodb_raises env of Some e \<Rightarrow> Inl e | None \<Rightarrow> Inr MongoDBService)
         else if db_type = ''local_files''
         then (case local_files_raises env of Some e \<Rightarrow> Inl e | None \<Rightarrow> Inr LocalFileService)
         else Inl ValueError)"

definition get_database_type :: "environment \<Rightarrow> string" where
  "get_database_type env =
     (if \<not> path_exists env local_bucket then ''local_files'' else ''mongodb'')"

subsection \<open>Export shaping (\<^verbatim>\<open>export_results\<close>, first loop)\<close>

text \<open>Substring test (\<^verbatim>\<open>"date" in s\<close> for a string \<open>s\<close>).\<close>

fun starts_with :: "string \<Rightarrow> string \<Rightarrow> bool" where
  "starts_with [] s = True"
| "starts_with (p # ps) [] = False"
| "starts_with (p # ps) (c # cs) = (p = c \<and> starts_with ps cs)"

fun is_substring :: "string \<Rightarrow> string \<Rightarrow> bool" where
  "is_substring p [] = (p = [])"
| "is_substring p (c # cs) = (starts_with p (c # cs) \<or> is_substring p cs)"

text \<open>
  What an f-string substitutes for a value (\<^verbatim>\<open>f"{arr}"\<close>, that is \<^verbatim>\<open>str(arr)\<close>). The
  text Python prints for a list or a dict is not modelled: it is the parameter \<open>repr\<close>.
\<close>

definition py_str :: "(json \<Rightarrow> string) \<Rightarrow> json \<Rightarrow> string" where
  "py_str repr v =
     (case v of
        JNull \<Rightarrow> ''None''
      | JBool b \<Rightarrow> (if b then ''True'' else ''False'')
      | JNum n \<Rightarrow> str_int n
      | JStr s \<Rightarrow> s
      | JList xs \<Rightarrow> repr v
      | JDict kvs \<Rightarrow> repr v)"

text \<open>
  \<^verbatim>\<open>if "date" in x and x["date"] == "": x["date"] = date\<close> on one element \<open>x\<close> of a
  collection. On a dict this is the backfill. On a list, \<^verbatim>\<open>in\<close> is membership and the
  subscript raises; on a string, \<^verbatim>\<open>in\<close> is the substring test and the subscript raises;
  on a number, a boolean or \<^verbatim>\<open>None\<close>, \<^verbatim>\<open>in\<close> raises.
\<close>

definition backfill :: "string \<Rightarrow> (string \<times> json) list \<Rightarrow> (string \<times> json) list" where
  "backfill date r =
     (if map_of r ''date'' = Some (JStr []) then AList.update ''date'' (JStr date) r else r)"

definition fill_date :: "string \<Rightarrow> json \<Rightarrow> error + json" where
  "fill_date date x =
     (case x of
        JDict r \<Rightarrow> Inr (JDict (backfill date r))
      | JList xs \<Rightarrow> if JStr ''date'' \<in> set xs then Inl TypeError else Inr x
      | JStr s \<Rightarrow> if is_substring ''date'' s then Inl TypeError else Inr x
      | JNull \<Rightarrow> Inl TypeError
      | JBool b \<Rightarrow> Inl TypeError
      | JNum n \<Rightarrow> Inl TypeError)"

text \<open>The same under the guard \<^verbatim>\<open>isinstance(metric, dict)\<close> of the \<open>metrics\<close> list.\<close>

definition fill_date_metric :: "string \<Rightarrow> json \<Rightarrow> json" where
  "fill_date_metric date x = (case x of JDict r \<Rightarrow> JDict (backfill date r) | _ \<Rightarrow> x)"

text \<open>
  The zone fallback of one zone, after its date: \<^verbatim>\<open>"zone_fallback" not in zone or not
  zone.get("zone_fallback")\<close>, then \<^verbatim>\<open>zone.get("arrondissement", "Unknown")\<close>. A list or a
  string has no \<^verbatim>\<open>get\<close>.
\<close>

definition needs_fallback :: "(string \<times> json) list \<Rightarrow> bool" where
  "needs_fallback r = (case map_of r ''zone_fallback'' of None \<Rightarrow> True | Some v \<Rightarrow> \<not> truthy v)"

definition ensure_zone_fallback :: "(json \<Rightarrow> string) \<Rightarrow> json \<Rightarrow> error + json" where
  "ensure_zone_fallback repr zone =
     (case zone of
        JDict r \<Rightarrow>
          if needs_fallback r
          then (let arr = (case map_of r ''arrondissement'' of
                             None \<Rightarrow> JStr ''Unknown'' | Some a \<Rightarrow> a)
                in if arr \<noteq> JStr ''Unknown''
                   then Inr (JDict (AList.update ''zone_fallback''
                                      (JStr (''Arrondissement '' @ py_str repr arr)) r))
                   else Inr (JDict (AList.update ''zone_fallback'' (JStr ''Unknown'') r)))
          else Inr zone
      | JList xs \<Rightarrow> Inl AttributeError
      | JStr s \<Rightarrow> Inl AttributeError
      | JNull \<Rightarrow> Inl TypeError
      | JBool b \<Rightarrow> Inl TypeError
      | JNum n \<Rightarrow> Inl TypeError)"

definition shape_zone :: "(json \<Rightarrow> string) \<Rightarrow> string \<Rightarrow> json \<Rightarrow> error + json" where
  "shape_zone repr date zone =
     (case fill_date date zone of Inl e \<Rightarrow> Inl e | Inr z \<Rightarrow> ensure_zone_fallback repr z)"

text \<open>
  A \<^verbatim>\<open>for\<close> loop that mutates the elements in place, stopping at the first exception.
  Iterating a list gives its elements; iterating a dict gives its keys and iterating a
  string its characters, which the body can only leave alone or fail on; anything else
  is not iterable.
\<close>

fun for_each :: "(json \<Rightarrow> error + json) \<Rightarrow> json list \<Rightarrow> error + json list" where
  "for_each body [] = Inr []"
| "for_each body (x # xs) =
     (case body x of
        Inl e \<Rightarrow> Inl e
      | Inr y \<Rightarrow> (case for_each body xs of Inl e \<Rightarrow> Inl e | Inr ys \<Rightarrow> Inr (y # ys)))"

definition shape_collection :: "(json \<Rightarrow> error + json) \<Rightarrow> json \<Rightarrow> error + json" where
  "shape_collection body v =
     (case v of
        JList xs \<Rightarrow> (case for_each body xs of Inl e \<Rightarrow> Inl e | Inr ys \<Rightarrow> Inr (JList ys))
      | JDict kvs \<Rightarrow>
          (case for_each body (map (\<lambda>kv. JStr (fst kv)) kvs) of Inl e \<Rightarrow> Inl e | Inr ys \<Rightarrow> Inr v)
      | JStr s \<Rightarrow>
          (case for_each body (map (\<lambda>c. JStr [c]) s) of Inl e \<Rightarrow> Inl e | Inr ys \<Rightarrow> Inr v)
      | JNull \<Rightarrow> Inl TypeError
      | JBool b \<Rightarrow> Inl TypeError
      | JNum n \<Rightarrow> Inl TypeError)"

text \<open>\<^verbatim>\<open>if key in indicators: for x in indicators[key]: ...\<close> on the indicators dict.\<close>

definition shape_key ::
  "(json \<Rightarrow> error + json) \<Rightarrow> string \<Rightarrow> (string \<times> json) list \<Rightarrow> error + (string \<times> json) list" where
  "shape_key body key ind =
     (case map_of ind key of
        None \<Rightarrow> Inr ind
      | Some v \<Rightarrow>
          (case shape_collection body v of
             Inl e \<Rightarrow> Inl e
           | Inr v' \<Rightarrow> Inr (AList.update key v' ind)))"

definition shape_metrics :: "string \<Rightarrow> (string \<times> json) list \<Rightarrow> (string \<times> json) list" where
  "shape_metrics date ind =
     (case map_of ind ''metrics'' of
        Some (JList xs) \<Rightarrow> AList.update ''metrics'' (JList (map (fill_date_metric date) xs)) ind
      | _ \<Rightarrow> ind)"

text \<open>The four passes over the indicators of one data type, in the order of the source.\<close>

definition shape_indicators ::
  "(json \<Rightarrow> string) \<Rightarrow> string \<Rightarrow> (string \<times> json) list \<Rightarrow> error + (string \<times> json) list" where
  "shape_indicators repr date ind =
     (case shape_key (fill_date date) ''top_10_troncons'' (shape_metrics date ind) of
        Inl e \<Rightarrow> Inl e
      | Inr i2 \<Rightarrow>
          (case shape_key (shape_zone repr date) ''top_10_zones_congestionnees'' i2 of
             Inl e \<Rightarrow> Inl e
           | Inr i3 \<Rightarrow> shape_key (fill_date date) ''alertes_congestion'' i3))"

text \<open>
  A processing result \<^verbatim>\<open>{success, indicators, errors}\<close>. \<open>indicators\<close> is \<open>None\<close> when
  the key is absent; a result that is \<^verbatim>\<open>None\<close> or empty is one without success and
  without indicators. The indicators are a dict, as the processors' contract has it.
\<close>

record proc_result =
  success :: bool
  indicators :: "(string \<times> json) list option"

definition shape_result :: "(json \<Rightarrow> string) \<Rightarrow> string \<Rightarrow> proc_result \<Rightarrow> error + proc_result" where
  "shape_result repr date result =
     (case indicators result of
        None \<Rightarrow> Inr result
      | Some ind \<Rightarrow>
          if ind = [] then Inr result
          else (case shape_indicators repr date ind of
                  Inl e \<Rightarrow> Inl e
                | Inr ind' \<Rightarrow> Inr (result\<lparr>indicators := Some ind'\<rparr>)))"

fun shape_results ::
  "(json \<Rightarrow> string) \<Rightarrow> string \<Rightarrow> (string \<times> proc_result) list
     \<Rightarrow> error + (string \<times> proc_result) list"
where
  "shape_results repr date [] = Inr []"
| "shape_results repr date ((data_type, result) # rest) =
     (case shape_result repr date result of
        Inl e \<Rightarrow> Inl e
      | Inr result' \<Rightarrow>
          (case shape_results repr date rest of
             Inl e \<Rightarrow> Inl e
           | Inr rest' \<Rightarrow> Inr ((data_type, result') # rest')))"


subsection \<open>The export loop (\<^verbatim>\<open>export_results\<close>, second loop)\<close>

text \<open>
  The selected backend is an external service: the model records the calls
  \<^verbatim>\<open>db_service.save_metrics(metrics=..., data_type=..., date=...)\<close> that the export makes,
  in order. Whether a call answers \<^verbatim>\<open>True\<close> is up to the backend and may depend on the
  calls before it (\<open>db_save_ok\<close>).
  The functions \<^verbatim>\<open>should_optimize_for_mongodb\<close> and \<^verbatim>\<open>optimize_metrics_for_storage\<close>
  (\<^verbatim>\<open>utils/metrics_optimizer.py\<close>) are not part of the embedded sources: they are
  parameters, functions of the data type and the indicators that return a value and
  leave their argument alone. \<open>container_repr\<close> is the parameter of \<^const>\<open>py_str\<close>.
\<close>

record save_call =
  call_metrics :: json
  call_data_type :: string
  call_date :: string

record export_ctx =
  should_optimize_for_mongodb :: "string \<Rightarrow> (string \<times> json) list \<Rightarrow> bool"
  optimize_metrics_for_storage :: "string \<Rightarrow> (string \<times> json) list \<Rightarrow> (string \<times> json) list"
  db_save_ok :: "save_call list \<Rightarrow> save_call \<Rightarrow> bool"
  container_repr :: "json \<Rightarrow> string"

text \<open>
  What the loop changes: the calls made to the backend, the files of
  \<^verbatim>\<open>config.METRICS_DIR\<close> (the local backup) and the counter \<^verbatim>\<open>exported_count\<close>.
\<close>

record export_state =
  db_calls :: "save_call list"
  backup_dir :: "(string \<times> json) list"
  exported_count :: nat

text \<open>
  Modelled from the spec: \<^verbatim>\<open>save_json\<close> (\<^verbatim>\<open>processors/utils/file_utils.py\<close>) is not
  part of the embedded sources. The full indicators are "written to local backup
  storage": the file of that name is created or replaced and holds the data.
\<close>

definition save_json :: "json \<Rightarrow> string \<Rightarrow> (string \<times> json) list \<Rightarrow> (string \<times> json) list" where
  "save_json data name dir = AList.update name data dir"

definition backup_name :: "string \<Rightarrow> string \<Rightarrow> string" where
  "backup_name data_type date = data_type @ ''_metrics_'' @ date @ ''.json''"

text \<open>One call of \<^verbatim>\<open>db_service.save_metrics\<close> with the counting that follows it.\<close>

definition db_write :: "export_ctx \<Rightarrow> json \<Rightarrow> string \<Rightarrow> string \<Rightarrow> export_state \<Rightarrow> export_state" where
  "db_write ctx metrics data_type date st =
     (let call = \<lparr>call_metrics = metrics, call_data_type = data_type, call_date = date\<rparr>
      in st\<lparr>db_calls := db_calls st @ [call],
             exported_count := (if db_save_ok ctx (db_calls st) call
                                then exported_count st + 1 else exported_count st)\<rparr>)"

text \<open>\<^verbatim>\<open>os.getenv(name)\<close> in a condition: set and not empty.\<close>

definition env_set :: "string option \<Rightarrow> bool" where
  "env_set v = (case v of None \<Rightarrow> False | Some s \<Rightarrow> s \<noteq> [])"

text \<open>The body of the loop for one data type and its (shaped) result.\<close>

definition export_one ::
  "export_ctx \<Rightarrow> service option \<Rightarrow> string option \<Rightarrow> string \<Rightarrow> export_state
     \<Rightarrow> string \<times> proc_result \<Rightarrow> export_state" where
  "export_one ctx db_service aws date st item =
     (let data_type = fst item; result = snd item
      in if success result
         then (case indicators result of
                 None \<Rightarrow> st
               | Some ind \<Rightarrow>
                   if ind = [] then st
                   else (let st1 =
                               (if db_service \<noteq> None \<and> should_optimize_for_mongodb ctx data_type ind
                                then db_write ctx
                                       (JDict (optimize_metrics_for_storage ctx data_type ind))
                                       data_type date st
                                else if db_service \<noteq> None
                                then db_write ctx (JDict ind) data_type date st
                                else st)
                         in if \<not> env_set aws
                            then st1\<lparr>backup_dir :=
                                       save_json (JDict ind) (backup_name data_type date)
                                         (backup_dir st1)\<rparr>
                            else st1))
         else st)"

text \<open>
  \<^verbatim>\<open>export_results\<close>: the shaping pass over all results (an exception there leaves the
  function), the selection of the backend (\<^verbatim>\<open>None\<close> when it raises), then the export
  loop. \<open>backup0\<close> is the content of \<^verbatim>\<open>config.METRICS_DIR\<close> before the run.
\<close>

definition export_results ::
  "export_ctx \<Rightarrow> environment \<Rightarrow> string \<Rightarrow> (string \<times> proc_result) list \<Rightarrow> (string \<times> json) list
     \<Rightarrow> error + export_state" where
  "export_results ctx env date results backup0 =
     (case shape_results (container_repr ctx) date results of
        Inl e \<Rightarrow> Inl e
      | Inr shaped \<Rightarrow>
          (let db_service = (case get_database_service env of Inl e \<Rightarrow> None | Inr svc \<Rightarrow> Some svc)
           in Inr (foldl (export_one ctx db_service (aws_execution_env env) date)
                     \<lparr>db_calls = [], backup_dir = backup0, exported_count = 0\<rparr> shaped)))"

subsection \<open>The manual sync tool (\<^verbatim>\<open>upload_to_aws.py\<close>)\<close>









text \<open>The calls the backend received for one data type.\<close>

definition calls_for :: "string \<Rightarrow> export_state \<Rightarrow> save_call list" where
  "calls_for t st = filter (\<lambda>c. call_data_type c = t) (db_calls st)"


subsection \<open>Example stores\<close>

definition empty_store :: store where
  "empty_store = \<lparr>metrics_dir = [], reports_dir = [], writable = (\<lambda>name. True)\<rparr>"

definition bikes_v1 :: json where
  "bikes_v1 = JDict [(''total_stations'', JNum 3)]"

definition bikes_v2 :: json where
  "bikes_v2 = JDict [(''total_stations'', JNum 4), (''metrics'', JList [])]"

definition store_after_one_save :: store where
  "store_after_one_save =
     snd (save_metrics ''2025-11-04T08:00:00'' empty_store (of_json bikes_v1) ''bikes'' ''2025-11-04'')"




definition weather_doc :: json where
  "weather_doc = JDict [(''temp_moy'', JNum 12)]"

definition renamed_store :: store where
  "renamed_store =
     \<lparr>metrics_dir =
        [(''weather_metrics_2025-11-03.json'',
          Document \<lparr>doc_metric_type = Some ''weather'', doc_date = Some ''2024-12-25'',
                    doc_timestamp = Some ''2024-12-25T10:00:00'', doc_metrics = Some weather_doc\<rparr>)],
      reports_dir = [], writable = (\<lambda>name. True)\<rparr>"

definition tagged_store :: store where
  "tagged_store =
     snd (save_metrics ''2025-11-03T10:00:00'' empty_store (of_json weather_doc) ''weather'' ''x_2025-11-03'')"

definition three_days_store :: store where
  "three_days_store =
     snd (save_metrics ''2025-11-09T10:00:00''
       (snd (save_metrics ''2025-11-02T10:00:00''
         (snd (save_metrics ''2025-11-04T10:00:00'' empty_store (of_json weather_doc) ''weather'' ''2025-11-04''))
         (of_json (JNum 7)) ''weather'' ''2025-11-02''))
       (of_json weather_doc) ''weather'' ''2025-11-09'')"

definition twice_store :: store where
  "twice_store =
     snd (save_metrics ''2025-11-04T11:00:00''
       (snd (save_metrics ''2025-11-04T10:00:00'' empty_store (of_json bikes_v1) ''bikes'' ''2025-11-04''))
       (of_json bikes_v2) ''bikes'' ''v2_2025-11-04'')"

subsection \<open>Example environments and indicators\<close>

definition dev_env :: environment where
  "dev_env =
     \<lparr>cwd_entries = [''src'', ''bucket-cityflow-paris-s3-raw'', ''output''],
      mongodb_raises = None, local_files_raises = None, aws_execution_env = None\<rparr>"

definition dev_env_later :: environment where
  "dev_env_later =
     \<lparr>cwd_entries = [''bucket-cityflow-paris-s3-raw'', ''src''],
      mongodb_raises = None, local_files_raises = Some OSError, aws_execution_env = Some []\<rparr>"

definition ec2_env :: environment where
  "ec2_env =
     \<lparr>cwd_entries = [''src'', ''data''],
      mongodb_raises = Some ImportError, local_files_raises = None, aws_execution_env = None\<rparr>"

definition no_repr :: "json \<Rightarrow> string" where
  "no_repr v = []"

definition stations_indicators :: "(string \<times> json) list" where
  "stations_indicators =
     [(''total'', JNum 2),
      (''stations'', JList [JDict [(''id'', JNum 1), (''date'', JStr [])]])]"

definition traffic_indicators :: "(string \<times> json) list" where
  "traffic_indicators =
     [(''metrics'', JList [JDict [(''id'', JNum 1), (''date'', JStr [])],
                           JDict [(''id'', JNum 2), (''date'', JStr ''2025-01-01'')]]),
      (''top_10_zones_congestionnees'',
         JList [JDict [(''arrondissement'', JStr ''12''), (''date'', JStr [])],
                JDict [(''arrondissement'', JStr ''Unknown'')],
                JDict [(''zone_fallback'', JStr ''Zone A''), (''date'', JStr ''2025-01-01'')]])]"

definition traffic_shaped :: "(string \<times> json) list" where
  "traffic_shaped =
     [(''metrics'', JList [JDict [(''id'', JNum 1), (''date'', JStr ''2025-11-04'')],
                           JDict [(''id'', JNum 2), (''date'', JStr ''2025-01-01'')]]),
      (''top_10_zones_congestionnees'',
         JList [JDict [(''arrondissement'', JStr ''12''), (''date'', JStr ''2025-11-04''),
                       (''zone_fallback'', JStr ''Arrondissement 12'')],
                JDict [(''arrondissement'', JStr ''Unknown''), (''zone_fallback'', JStr ''Unknown'')],
                JDict [(''zone_fallback'', JStr ''Zone A''), (''date'', JStr ''2025-01-01'')]])]"

definition labelled_zone :: "(string \<times> json) list" where
  "labelled_zone = [(''zone_fallback'', JStr ''Zone A''), (''date'', JStr [])]"

subsection \<open>Example export and upload runs\<close>

definition example_ctx :: export_ctx where
  "example_ctx =
     \<lparr>should_optimize_for_mongodb = (\<lambda>data_type ind. data_type = ''traffic''),
      optimize_metrics_for_storage = (\<lambda>data_type ind. AList.delete ''metrics'' ind),
      db_save_ok = (\<lambda>calls call. True),
      container_repr = no_repr\<rparr>"

definition example_results :: "(string \<times> proc_result) list" where
  "example_results =
     [(''traffic'', \<lparr>success = True, indicators = Some traffic_indicators\<rparr>),
      (''weather'', \<lparr>success = False, indicators = None\<rparr>),
      (''bikes'', \<lparr>success = True, indicators = Some stations_indicators\<rparr>)]"

definition example_shaped :: "(string \<times> proc_result) list" where
  "example_shaped =
     [(''traffic'', \<lparr>success = True, indicators = Some traffic_shaped\<rparr>),
      (''weather'', \<lparr>success = False, indicators = None\<rparr>),
      (''bikes'', \<lparr>success = True, indicators = Some stations_indicators\<rparr>)]"

definition example_final :: export_state where
  "example_final =
     \<lparr>db_calls =
        [\<lparr>call_metrics = JDict (AList.delete ''metrics'' traffic_shaped),
          call_data_type = ''traffic'', call_date = ''2025-11-04''\<rparr>,
         \<lparr>call_metrics = JDict stations_indicators,
          call_data_type = ''bikes'', call_date = ''2025-11-04''\<rparr>],
      backup_dir =
        [(''traffic_metrics_2025-11-04.json'', JDict traffic_shaped),
         (''bikes_metrics_2025-11-04.json'', JDict stations_indicators)],
      exported_count = 2\<rparr>"





section \<open>Properties\<close>

subsection \<open>Helper facts on directories\<close>



lemma save_metrics_dump_raises:
  "writable st (get_metrics_path t d) \<Longrightarrow> dumps_loads m = Inl e \<Longrightarrow>
   save_metrics now st m t d
     = (False, st\<lparr>metrics_dir := AList.update (get_metrics_path t d) Unreadable (metrics_dir st)\<rparr>)"
  by (simp add: save_metrics_def Let_def)


subsection \<open>Helper facts on \<^verbatim>\<open>json.dump\<close>\<close>








lemma char_of_49: "char_of (49::nat) = CHR ''1''"
proof -
  have "of_char CHR ''1'' = (49::nat)" by simp
  then have "char_of (49::nat) = char_of (of_char CHR ''1'' :: nat)" by simp
  then show ?thesis by (simp only: char_of_char)
qed

lemmas dump_defs = dump_key_def int_too_long_def dict_of_items_def str_int_def char_of_49

lemma dumps_examples:
  "dumps_loads (of_json bikes_v1) = Inr bikes_v1"
  "dumps_loads (of_json bikes_v2) = Inr bikes_v2"
  "dumps_loads (of_json weather_doc) = Inr weather_doc"
  by (simp_all add: bikes_v1_def bikes_v2_def weather_doc_def dump_defs)

subsection \<open>Helper facts on file names and the two readers\<close>

lemma reported_document:
  "date_of_file name = Some fd \<Longrightarrow> reported (name, Document data) = Some (entry_of fd data)"
  by (simp add: reported_def entry_of_def split: option.splits)

lemma reported_unreadable: "reported (name, Unreadable) = None"
  by (simp add: reported_def split: option.splits)

lemma query_loop_skip:
  "\<not> in_range s e name \<Longrightarrow> query_loop s e ((name, c) # files) acc = query_loop s e files acc"
  by (auto simp: in_range_def split: option.splits)

lemma query_loop_unreadable:
  "in_range s e name \<Longrightarrow> query_loop s e ((name, Unreadable) # files) acc = Inl JSONDecodeError"
  by (auto simp: in_range_def split: option.splits)

lemma query_loop_document:
  "in_range s e name \<Longrightarrow> date_of_file name = Some fd \<Longrightarrow>
   query_loop s e ((name, Document data) # files) acc
     = query_loop s e files (acc @ [entry_of fd data])"
  by (auto simp: in_range_def split: option.splits)

lemma query_loop_char:
  "query_loop s e files acc =
     (if list_ex (\<lambda>f. snd f = Unreadable) (filter (\<lambda>f. in_range s e (fst f)) files)
      then Inl JSONDecodeError
      else Inr (acc @ List.map_filter reported (filter (\<lambda>f. in_range s e (fst f)) files)))"
proof (induction files arbitrary: acc)
  case Nil
  then show ?case by (simp add: List.map_filter_simps)
next
  case (Cons f files)
  obtain name c where f: "f = (name, c)" by (cases f)
  show ?case
  proof (cases "in_range s e name")
    case False
    then show ?thesis using Cons f
      by (simp add: query_loop_skip del: query_loop.simps)
  next
    case True
    then obtain fd where fd: "date_of_file name = Some fd"
      by (auto simp: in_range_def split: option.splits)
    show ?thesis
    proof (cases c)
      case Unreadable
      then show ?thesis using True f
        by (simp add: query_loop_unreadable del: query_loop.simps)
    next
      case (Document data)
      then show ?thesis using True f fd Cons [of "acc @ [entry_of fd data]"]
        by (simp add: List.map_filter_simps reported_document query_loop_document
            del: query_loop.simps)
    qed
  qed
qed

lemma filter_filter_sel:
  "filter (\<lambda>f. in_range s e (fst f)) (filter (\<lambda>f. glob_metrics t (fst f)) fs)
     = filter (\<lambda>f. glob_metrics t (fst f) \<and> in_range s e (fst f)) fs"
  by (induction fs) auto

lemma query_refines: "query_metrics_by_date_range st t s e = query_by_filename_date st t s e"
  by (simp add: query_metrics_by_date_range_def query_by_filename_date_def query_loop_char
      filter_filter_sel selected_files_def Let_def)

lemma dates_loop_char: "dates_loop names acc = acc @ List.map_filter date_of_file names"
  by (induction names arbitrary: acc) (auto simp: List.map_filter_simps split: option.splits)

lemma split_on_nonempty: "split_on c s \<noteq> []"
  by (induction s) (auto split: list.splits)

lemma length_split_on: "length (split_on c s) = Suc (count_list s c)"
  by (induction s) (auto split: list.splits simp: split_on_nonempty)

lemma split_on_no_sep: "c \<notin> set s \<Longrightarrow> split_on c s = [s]"
  by (induction s) (auto split: list.splits)

lemma split_on_snoc:
  "c \<notin> set d \<Longrightarrow> \<exists>ps. ps \<noteq> [] \<and> split_on c (a @ c # d) = ps @ [d]"
proof (induction a)
  case Nil
  then have "split_on c ([] @ c # d) = [[]] @ [d]" by (simp add: split_on_no_sep)
  then show ?case by blast
next
  case (Cons x a)
  then obtain ps where ps: "ps \<noteq> []" "split_on c (a @ c # d) = ps @ [d]" by blast
  then obtain p ps' where pp: "ps = p # ps'" by (cases ps) auto
  show ?case
  proof (cases "x = c")
    case True
    then have "split_on c ((x # a) @ c # d) = ([] # ps) @ [d]" using ps by simp
    then show ?thesis by blast
  next
    case False
    then have "split_on c ((x # a) @ c # d) = ((x # p) # ps') @ [d]" using ps pp by simp
    then show ?thesis by blast
  qed
qed

lemma last_split_on: "c \<notin> set d \<Longrightarrow> last (split_on c (a @ c # d)) = d"
  using split_on_snoc [of c d a] by auto

lemma stem_json: "x \<noteq> [] \<Longrightarrow> stem (x @ ''.json'') = x"
  by (simp add: stem_def rfind_def)

lemma date_of_saved_file:
  assumes d: "CHR ''_'' \<notin> set d"
  shows "date_of_file (get_metrics_path t d) = Some d"
proof -
  let ?x = "(t @ ''_metrics'') @ CHR ''_'' # d"
  have "get_metrics_path t d = ?x @ ''.json''"
    by (simp add: get_metrics_path_def)
  moreover have "stem (?x @ ''.json'') = ?x"
    by (rule stem_json) simp
  ultimately have st: "stem (get_metrics_path t d) = ?x" by simp
  have "3 \<le> length (split_on CHR ''_'' ?x)"
    by (simp add: length_split_on)
  then show ?thesis
    using last_split_on [OF d, of "t @ ''_metrics''"] st
    by (simp add: date_of_file_def Let_def)
qed

lemma glob_date:
  assumes g: "glob_metrics t name"
  shows "\<exists>fd. date_of_file name = Some fd"
proof -
  define p where "p = t @ ''_metrics_''"
  define x where "x = take (length name - 5) name"
  from g have 1: "take (length p) name = p" and 2: "length p + 5 \<le> length name"
    and 3: "drop (length name - 5) name = ''.json''"
    by (simp_all add: glob_metrics_def Let_def p_def)
  have nm: "name = x @ ''.json''"
    using 3 append_take_drop_id [of "length name - 5" name] by (simp add: x_def)
  have "length p \<le> length name - 5" using 2 by simp
  then have "take (length p) x = p"
    using 1 by (simp add: x_def min_def)
  then have xp: "x = p @ drop (length p) x"
    using append_take_drop_id [of "length p" x] by simp
  have "x \<noteq> []" using xp by (auto simp: p_def)
  then have "stem name = x" using nm stem_json [of x] by simp
  moreover have "3 \<le> length (split_on CHR ''_'' (p @ drop (length p) x))"
    by (simp add: length_split_on p_def)
  ultimately have "3 \<le> length (split_on CHR ''_'' (stem name))"
    using xp by simp
  then show ?thesis by (simp add: date_of_file_def Let_def)
qed


lemma map_filter_set: "x \<in> set (List.map_filter f xs) \<longleftrightarrow> (\<exists>y \<in> set xs. f y = Some x)"
  by (induction xs) (auto simp: List.map_filter_simps split: option.splits)

lemma query_entries_from_selected:
  "set (query_metrics_by_date_range st t s e)
     \<subseteq> set (List.map_filter reported (selected_files st t s e))"
  by (simp add: query_refines query_by_filename_date_def Let_def)

lemma reported_cases:
  "reported (name, c) = Some x \<Longrightarrow>
   \<exists>fd data. date_of_file name = Some fd \<and> c = Document data \<and> x = entry_of fd data"
  by (auto simp: reported_def entry_of_def split: option.splits content.splits)

lemma selected_files_iff:
  "(name, c) \<in> set (selected_files st t s e) \<longleftrightarrow>
     (name, c) \<in> set (metrics_dir st) \<and> glob_metrics t name \<and> in_range s e name"
  by (auto simp: selected_files_def)

lemmas eval_defs =
  save_metrics_def dumps_examples int_too_long_def empty_store_def Let_def get_metrics_path_def glob_metrics_def
  date_of_file_def stem_def rfind_def entry_of_def query_metrics_by_date_range_def
  list_available_dates_def

subsection \<open>C1: save then load, overwrite semantics\<close>




subsection \<open>C8: a missing key is answered with \<^verbatim>\<open>None\<close>\<close>

text \<open>
  C8. When no file is stored under the key, \<^verbatim>\<open>load_metrics\<close> returns \<^verbatim>\<open>None\<close>: the
  \<^verbatim>\<open>try\<close> block itself returns it at the existence test, nothing is raised. The same
  holds for \<^verbatim>\<open>load_report\<close> and a date without a stored report.
\<close>

theorem load_missing_is_none:
  "(map_of (metrics_dir st) (get_metrics_path t d) = None \<longrightarrow>
      load_metrics_try st t d = Inr JNull \<and> load_metrics st t d = JNull)
   \<and> (map_of (reports_dir st) (get_report_path d) = None \<longrightarrow>
      load_report_try st d = Inr JNull \<and> load_report st d = JNull)"
  by (simp add: load_metrics_def load_metrics_try_def load_report_def load_report_try_def)

theorem load_missing_is_none_witness:
  "map_of (metrics_dir store_after_one_save) (get_metrics_path ''traffic'' ''2025-11-04'') = None
   \<and> load_metrics_try store_after_one_save ''traffic'' ''2025-11-04'' = Inr JNull
   \<and> load_metrics store_after_one_save ''traffic'' ''2025-11-04'' = JNull
   \<and> map_of (reports_dir store_after_one_save) (get_report_path ''2025-11-04'') = None
   \<and> load_report_try store_after_one_save ''2025-11-04'' = Inr JNull
   \<and> load_report store_after_one_save ''2025-11-04'' = JNull"
proof -
  have m: "map_of (metrics_dir store_after_one_save) (get_metrics_path ''traffic'' ''2025-11-04'') = None"
    by (simp add: store_after_one_save_def eval_defs)
  have r: "map_of (reports_dir store_after_one_save) (get_report_path ''2025-11-04'') = None"
    by (simp add: store_after_one_save_def eval_defs)
  from load_missing_is_none [of store_after_one_save "''traffic''" "''2025-11-04''"] m r
  show ?thesis by simp
qed

subsection \<open>C7: the available dates\<close>

text \<open>
  C7 as stated fails: \<^verbatim>\<open>list_available_dates\<close> sorts the dates it parsed and removes
  nothing. After \<^verbatim>\<open>save_metrics(m, "bikes", "2025-11-04")\<close> and
  \<^verbatim>\<open>save_metrics(m, "bikes", "v2_2025-11-04")\<close> both files match the pattern for
  \<open>bikes\<close> and both names end in \<open>2025-11-04\<close>: the date is listed twice.
\<close>

theorem list_available_dates_duplicate:
  "list_available_dates twice_store ''bikes'' = [''2025-11-04'', ''2025-11-04'']
   \<and> \<not> distinct (list_available_dates twice_store ''bikes'')"
  by (simp add: twice_store_def eval_defs)

text \<open>
  C7, amended. \<^verbatim>\<open>list_available_dates\<close> returns, in ascending order, the trailing
  segment of every file name that matches the data type's pattern: one date per
  matching file, so a date is repeated exactly when two matching names end in it. In
  particular the list has no repetition when the matching files are those that
  \<^verbatim>\<open>save_metrics\<close> names for this data type with dates free of underscores.
\<close>

theorem list_available_dates_per_file:
  "sorted (list_available_dates st t)
   \<and> mset (list_available_dates st t) = mset (List.map_filter date_of_file (matching_names st t))
   \<and> length (list_available_dates st t) = length (matching_names st t)
   \<and> (distinct (list_available_dates st t)
        \<longleftrightarrow> distinct (List.map_filter date_of_file (matching_names st t)))
   \<and> (distinct (matching_names st t)
        \<and> (\<forall>n \<in> set (matching_names st t). \<exists>d. n = get_metrics_path t d \<and> CHR ''_'' \<notin> set d)
        \<longrightarrow> distinct (list_available_dates st t))"
proof -
  let ?ns = "matching_names st t"
  have eq: "list_available_dates st t = sort (List.map_filter date_of_file ?ns)"
    by (simp add: list_available_dates_def matching_names_def dates_loop_char)
  have all_dated: "\<forall>n \<in> set ?ns. \<exists>fd. date_of_file n = Some fd"
    by (auto simp: matching_names_def intro: glob_date)
  have mf: "List.map_filter date_of_file ns = map (\<lambda>n. the (date_of_file n)) ns"
    if "\<forall>n \<in> set ns. \<exists>fd. date_of_file n = Some fd" for ns
    using that by (induction ns) (auto simp: List.map_filter_simps)
  have a: "sorted (list_available_dates st t)" by (simp add: eq)
  have b: "mset (list_available_dates st t) = mset (List.map_filter date_of_file ?ns)"
    by (simp add: eq)
  have c: "length (list_available_dates st t) = length ?ns"
    by (simp add: eq mf [OF all_dated])
  have d: "distinct (list_available_dates st t)
        \<longleftrightarrow> distinct (List.map_filter date_of_file ?ns)"
    by (simp add: eq)
  have e: "distinct (list_available_dates st t)"
    if dn: "distinct ?ns"
      and sv: "\<forall>n \<in> set ?ns. \<exists>d. n = get_metrics_path t d \<and> CHR ''_'' \<notin> set d"
  proof -
    have "inj_on (\<lambda>n. the (date_of_file n)) (set ?ns)"
    proof (rule inj_onI)
      fix n1 n2
      assume n: "n1 \<in> set ?ns" "n2 \<in> set ?ns"
        and same: "the (date_of_file n1) = the (date_of_file n2)"
      from sv n obtain d1 d2
        where d: "n1 = get_metrics_path t d1" "CHR ''_'' \<notin> set d1"
          "n2 = get_metrics_path t d2" "CHR ''_'' \<notin> set d2"
        by blast
      then have "date_of_file n1 = Some d1" "date_of_file n2 = Some d2"
        by (simp_all add: date_of_saved_file)
      with same have "d1 = d2" by simp
      with d show "n1 = n2" by simp
    qed
    with dn have "distinct (map (\<lambda>n. the (date_of_file n)) ?ns)"
      by (simp add: distinct_map)
    then show ?thesis by (simp add: eq mf [OF all_dated])
  qed
  from a b c d e show ?thesis by blast
qed

theorem list_available_dates_per_file_witness:
  "matching_names three_days_store ''weather''
     = [get_metrics_path ''weather'' ''2025-11-04'', get_metrics_path ''weather'' ''2025-11-02'',
        get_metrics_path ''weather'' ''2025-11-09'']
   \<and> CHR ''_'' \<notin> set ''2025-11-04'' \<and> CHR ''_'' \<notin> set ''2025-11-02''
   \<and> CHR ''_'' \<notin> set ''2025-11-09''
   \<and> distinct (matching_names three_days_store ''weather'')
   \<and> list_available_dates three_days_store ''weather''
        = [''2025-11-02'', ''2025-11-04'', ''2025-11-09'']
   \<and> distinct (list_available_dates three_days_store ''weather'')
   \<and> sorted (list_available_dates three_days_store ''weather'')"
  using list_available_dates_per_file [of three_days_store "''weather''"]
  by (simp add: three_days_store_def matching_names_def eval_defs)

subsection \<open>C6: the range query\<close>

text \<open>
  C6 as stated fails: a returned entry can carry a date outside the bounds. After
  \<^verbatim>\<open>save_metrics(m, "weather", "x_2025-11-03")\<close> the file name ends in \<open>2025-11-03\<close>,
  which lies between \<open>2025-11-01\<close> and \<open>2025-11-05\<close>, and the entry returned for it is
  dated \<open>x_2025-11-03\<close>, which does not.
\<close>

theorem query_returns_date_outside_bounds:
  "''2025-11-01'' \<le> ''2025-11-05''
   \<and> query_metrics_by_date_range tagged_store ''weather'' ''2025-11-01'' ''2025-11-05''
        = [\<lparr>e_date = ''x_2025-11-03'', e_metrics = weather_doc\<rparr>]
   \<and> \<not> (''2025-11-01'' \<le> ''x_2025-11-03'' \<and> ''x_2025-11-03'' \<le> ''2025-11-05'')"
  by (simp add: tagged_store_def eval_defs)

text \<open>
  C6, amended. For every data type and all bounds, \<^verbatim>\<open>query_metrics_by_date_range\<close>
  returns a sequence sorted ascending by the entries' date; every entry comes from a
  stored document whose name matches the data type's pattern and whose file-name date
  lies within the bounds; the sequence is empty when no stored file is selected; and
  when every selected file is date-consistent (its document has no date of its own, or
  the date of its file name) every returned date lies within the bounds.
\<close>

theorem query_range_by_filename:
  "sorted (map e_date (query_metrics_by_date_range st t s e))
   \<and> (\<forall>x \<in> set (query_metrics_by_date_range st t s e).
        \<exists>name data fd. (name, Document data) \<in> set (metrics_dir st) \<and> glob_metrics t name
          \<and> date_of_file name = Some fd \<and> s \<le> fd \<and> fd \<le> e \<and> x = entry_of fd data)
   \<and> (selected_files st t s e = [] \<longrightarrow> query_metrics_by_date_range st t s e = [])
   \<and> ((\<forall>f \<in> set (selected_files st t s e). date_consistent f) \<longrightarrow>
        (\<forall>x \<in> set (query_metrics_by_date_range st t s e). s \<le> e_date x \<and> e_date x \<le> e))"
proof -
  let ?R = "query_metrics_by_date_range st t s e"
  have a: "sorted (map e_date ?R)"
    by (simp add: query_metrics_by_date_range_def split: sum.splits)
  have src: "\<exists>name data fd. (name, Document data) \<in> set (selected_files st t s e)
                \<and> date_of_file name = Some fd \<and> s \<le> fd \<and> fd \<le> e \<and> x = entry_of fd data"
    if "x \<in> set ?R" for x
  proof -
    from that query_entries_from_selected [of st t s e]
    have "x \<in> set (List.map_filter reported (selected_files st t s e))" by blast
    then obtain f
      where f: "f \<in> set (selected_files st t s e)" "reported f = Some x"
      by (auto simp: map_filter_set)
    obtain name c where nc: "f = (name, c)" by (cases f)
    from reported_cases f(2) nc obtain fd data
      where r: "date_of_file name = Some fd" "c = Document data" "x = entry_of fd data"
      by blast
    from f(1) nc have "in_range s e name" by (simp add: selected_files_iff)
    with r(1) have "s \<le> fd \<and> fd \<le> e" by (simp add: in_range_def)
    with f(1) nc r show ?thesis by blast
  qed
  have b: "\<forall>x \<in> set ?R.
        \<exists>name data fd. (name, Document data) \<in> set (metrics_dir st) \<and> glob_metrics t name
          \<and> date_of_file name = Some fd \<and> s \<le> fd \<and> fd \<le> e \<and> x = entry_of fd data"
  proof
    fix x assume "x \<in> set ?R"
    from src [OF this] show "\<exists>name data fd. (name, Document data) \<in> set (metrics_dir st)
          \<and> glob_metrics t name
          \<and> date_of_file name = Some fd \<and> s \<le> fd \<and> fd \<le> e \<and> x = entry_of fd data"
      by (metis selected_files_iff)
  qed
  have c: "selected_files st t s e = [] \<longrightarrow> ?R = []"
    by (simp add: query_refines query_by_filename_date_def Let_def List.map_filter_simps)
  have d: "(\<forall>f \<in> set (selected_files st t s e). date_consistent f) \<longrightarrow>
        (\<forall>x \<in> set ?R. s \<le> e_date x \<and> e_date x \<le> e)"
  proof (intro impI ballI)
    fix x assume cons: "\<forall>f \<in> set (selected_files st t s e). date_consistent f"
      and "x \<in> set ?R"
    from src [OF this(2)] obtain name data fd
      where r: "(name, Document data) \<in> set (selected_files st t s e)"
        "date_of_file name = Some fd" "s \<le> fd" "fd \<le> e" "x = entry_of fd data"
      by blast
    from cons r(1) have "date_consistent (name, Document data)" by blast
    with r(2) have "e_date (entry_of fd data) = fd"
      by (auto simp: date_consistent_def entry_of_def split: option.splits)
    with r show "s \<le> e_date x \<and> e_date x \<le> e" by simp
  qed
  from a b c d show ?thesis by blast
qed

theorem query_range_by_filename_witness:
  "selected_files three_days_store ''weather'' ''2025-11-01'' ''2025-11-05''
     = [(''weather_metrics_2025-11-04.json'',
         Document \<lparr>doc_metric_type = Some ''weather'', doc_date = Some ''2025-11-04'',
                   doc_timestamp = Some ''2025-11-04T10:00:00'', doc_metrics = Some weather_doc\<rparr>),
        (''weather_metrics_2025-11-02.json'',
         Document \<lparr>doc_metric_type = Some ''weather'', doc_date = Some ''2025-11-02'',
                   doc_timestamp = Some ''2025-11-02T10:00:00'', doc_metrics = Some (JNum 7)\<rparr>)]
   \<and> date_consistent (''weather_metrics_2025-11-04.json'',
         Document \<lparr>doc_metric_type = Some ''weather'', doc_date = Some ''2025-11-04'',
                   doc_timestamp = Some ''2025-11-04T10:00:00'', doc_metrics = Some weather_doc\<rparr>)
   \<and> date_consistent (''weather_metrics_2025-11-02.json'',
         Document \<lparr>doc_metric_type = Some ''weather'', doc_date = Some ''2025-11-02'',
                   doc_timestamp = Some ''2025-11-02T10:00:00'', doc_metrics = Some (JNum 7)\<rparr>)
   \<and> query_metrics_by_date_range three_days_store ''weather'' ''2025-11-01'' ''2025-11-05''
        = [\<lparr>e_date = ''2025-11-02'', e_metrics = JNum 7\<rparr>,
           \<lparr>e_date = ''2025-11-04'', e_metrics = weather_doc\<rparr>]
   \<and> sorted (map e_date
        (query_metrics_by_date_range three_days_store ''weather'' ''2025-11-01'' ''2025-11-05''))
   \<and> ''2025-11-01'' \<le> ''2025-11-02'' \<and> ''2025-11-04'' \<le> ''2025-11-05''"
  using query_range_by_filename [of three_days_store "''weather''" "''2025-11-01''" "''2025-11-05''"]
  by (simp add: three_days_store_def selected_files_def in_range_def date_consistent_def eval_defs)

subsection \<open>C10: selection by file name, report by internal date\<close>

text \<open>
  C10. \<^verbatim>\<open>query_metrics_by_date_range\<close> is the selection on file names
  \<^const>\<open>query_by_filename_date\<close>: whether a file is in the range is decided on the date
  in its name, while the date of the returned entry, and the sort, use the document's own
  \<open>date\<close> when it has one. So a file named for 2025-11-03 whose document is dated
  2024-12-25 is returned by a query for 2025-11-01 to 2025-11-05, as an entry dated
  2024-12-25, outside the queried range.
\<close>

theorem query_selects_by_filename_date:
  "query_metrics_by_date_range st t s e = query_by_filename_date st t s e
   \<and> query_metrics_by_date_range renamed_store ''weather'' ''2025-11-01'' ''2025-11-05''
        = [\<lparr>e_date = ''2024-12-25'', e_metrics = weather_doc\<rparr>]
   \<and> \<not> ''2025-11-01'' \<le> ''2024-12-25''"
proof -
  have "query_metrics_by_date_range renamed_store ''weather'' ''2025-11-01'' ''2025-11-05''
        = [\<lparr>e_date = ''2024-12-25'', e_metrics = weather_doc\<rparr>]"
    by (simp add: renamed_store_def eval_defs)
  then show ?thesis by (simp add: query_refines)
qed


subsection \<open>Helper facts on the shaping pass\<close>

lemma for_each_Inr:
  "for_each body xs = Inr ys \<Longrightarrow> list_all2 (\<lambda>x y. body x = Inr y) xs ys"
  by (induction xs arbitrary: ys) (auto split: sum.splits)

lemma for_each_nth:
  assumes "for_each body xs = Inr ys" and "i < length xs"
  shows "length ys = length xs \<and> body (xs ! i) = Inr (ys ! i)"
  using for_each_Inr [OF assms(1)] assms(2)
  by (auto simp: list_all2_conv_all_nth)

lemma shape_key_other:
  "shape_key body k ind = Inr ind' \<Longrightarrow> k' \<noteq> k \<Longrightarrow> map_of ind' k' = map_of ind k'"
  by (auto simp: shape_key_def update_conv' split: option.splits sum.splits)

lemma shape_key_list:
  assumes "shape_key body k ind = Inr ind'" and "map_of ind k = Some (JList xs)"
  shows "\<exists>ys. map_of ind' k = Some (JList ys) \<and> for_each body xs = Inr ys"
  using assms
  by (auto simp: shape_key_def shape_collection_def update_conv' split: sum.splits)

lemma shape_metrics_other:
  "k' \<noteq> ''metrics'' \<Longrightarrow> map_of (shape_metrics date ind) k' = map_of ind k'"
  by (auto simp: shape_metrics_def update_conv' split: option.splits json.splits)



lemma backfill_other: "f \<noteq> ''date'' \<Longrightarrow> map_of (backfill date r) f = map_of r f"
  by (simp add: backfill_def update_conv')

lemma backfill_id: "map_of r ''date'' \<noteq> Some (JStr []) \<Longrightarrow> backfill date r = r"
  by (simp add: backfill_def)

lemma needs_fallback_backfill: "needs_fallback (backfill date r) = needs_fallback r"
  by (simp add: needs_fallback_def backfill_other)

lemma shape_zone_dict:
  "shape_zone repr date (JDict r) = ensure_zone_fallback repr (JDict (backfill date r))"
  by (simp add: shape_zone_def fill_date_def)

lemma ensure_zone_fallback_dict:
  assumes "ensure_zone_fallback repr (JDict r) = Inr z"
  shows "\<exists>r'. z = JDict r'
     \<and> (needs_fallback r \<longrightarrow>
          r' = AList.update ''zone_fallback''
                 (JStr (case map_of r ''arrondissement'' of
                          None \<Rightarrow> ''Unknown''
                        | Some a \<Rightarrow> if a = JStr ''Unknown'' then ''Unknown''
                                    else ''Arrondissement '' @ py_str repr a)) r)
     \<and> (\<not> needs_fallback r \<longrightarrow> r' = r)"
  using assms
  by (auto simp: ensure_zone_fallback_def Let_def split: option.splits if_splits)

lemma shape_zone_record:
  assumes "shape_zone repr date (JDict r) = Inr z"
  shows "\<exists>r'. z = JDict r'
     \<and> (needs_fallback r \<longrightarrow>
          r' = AList.update ''zone_fallback''
                 (JStr (case map_of r ''arrondissement'' of
                          None \<Rightarrow> ''Unknown''
                        | Some a \<Rightarrow> if a = JStr ''Unknown'' then ''Unknown''
                                    else ''Arrondissement '' @ py_str repr a)) (backfill date r))
     \<and> (\<not> needs_fallback r \<longrightarrow> r' = backfill date r)"
  using ensure_zone_fallback_dict [of repr "backfill date r" z] assms
  by (simp add: shape_zone_dict needs_fallback_backfill backfill_other)



lemma shape_indicators_zones:
  assumes "shape_indicators repr date ind = Inr ind'"
    "map_of ind ''top_10_zones_congestionnees'' = Some (JList xs)"
  shows "\<exists>ys. map_of ind' ''top_10_zones_congestionnees'' = Some (JList ys)
           \<and> for_each (shape_zone repr date) xs = Inr ys"
proof -
  from assms(1) obtain i2 i3 where
    s2: "shape_key (fill_date date) ''top_10_troncons'' (shape_metrics date ind) = Inr i2" and
    s3: "shape_key (shape_zone repr date) ''top_10_zones_congestionnees'' i2 = Inr i3" and
    s4: "shape_key (fill_date date) ''alertes_congestion'' i3 = Inr ind'"
    by (auto simp: shape_indicators_def split: sum.splits)
  have "map_of i2 ''top_10_zones_congestionnees'' = map_of (shape_metrics date ind) ''top_10_zones_congestionnees''"
    using shape_key_other [OF s2] by simp
  then have "map_of i2 ''top_10_zones_congestionnees'' = Some (JList xs)"
    using assms(2) by (simp add: shape_metrics_other)
  from shape_key_list [OF s3 this] obtain ys where
    ys: "map_of i3 ''top_10_zones_congestionnees'' = Some (JList ys)"
      "for_each (shape_zone repr date) xs = Inr ys"
    by blast
  have "map_of ind' ''top_10_zones_congestionnees'' = map_of i3 ''top_10_zones_congestionnees''"
    using shape_key_other [OF s4] by simp
  then show ?thesis using ys by simp
qed




lemmas shape_defs =
  shape_indicators_def shape_key_def shape_metrics_def shape_collection_def shape_zone_def
  fill_date_def fill_date_metric_def backfill_def ensure_zone_fallback_def needs_fallback_def
  py_str_def Let_def

lemma traffic_shaping: "shape_indicators no_repr ''2025-11-04'' traffic_indicators = Inr traffic_shaped"
  by (simp add: traffic_indicators_def traffic_shaped_def shape_defs)

subsection \<open>C3: the backend selector\<close>

text \<open>
  C3. \<^verbatim>\<open>get_database_type()\<close> answers \<open>mongodb\<close> when the sentinel directory exists and
  \<open>local_files\<close> otherwise; whenever \<^verbatim>\<open>get_database_service()\<close> constructs a service,
  that service is of the kind \<^verbatim>\<open>get_database_type()\<close> names; and two invocations in
  environments that agree on the presence of the sentinel (whatever else differs) give
  the same type and, when both construct a service, the same kind of service.
\<close>

theorem selector_deterministic:
  "get_database_type env = (if path_exists env local_bucket then ''mongodb'' else ''local_files'')
   \<and> (get_database_service env = Inr svc \<longrightarrow> service_kind svc = get_database_type env)
   \<and> (path_exists env local_bucket = path_exists env' local_bucket \<longrightarrow>
        get_database_type env = get_database_type env'
        \<and> (get_database_service env = Inr svc \<and> get_database_service env' = Inr svc'
             \<longrightarrow> svc = svc'))"
  by (auto simp: get_database_type_def get_database_service_def service_kind_def Let_def
      split: option.splits if_splits)

theorem selector_deterministic_witness:
  "get_database_type dev_env = ''mongodb''
   \<and> get_database_service dev_env = Inr MongoDBService
   \<and> service_kind MongoDBService = get_database_type dev_env
   \<and> path_exists dev_env local_bucket = path_exists dev_env_later local_bucket
   \<and> get_database_service dev_env_later = Inr MongoDBService
   \<and> get_database_type dev_env_later = ''mongodb''
   \<and> get_database_type ec2_env = ''local_files''
   \<and> get_database_service ec2_env = Inr LocalFileService"
  using selector_deterministic [of dev_env MongoDBService dev_env_later MongoDBService]
  by (simp add: dev_env_def dev_env_later_def ec2_env_def get_database_type_def
      get_database_service_def service_kind_def path_exists_def local_bucket_def)

subsection \<open>C4: the date backfill\<close>




subsection \<open>C5: the zone fallback\<close>

text \<open>
  C5 as stated fails in its last sentence: a zone record with a non-empty
  \<open>zone_fallback\<close> is not always left unchanged, since the same pass fills its empty
  \<open>date\<close>.
\<close>

theorem labelled_zone_is_modified:
  "\<not> needs_fallback labelled_zone
   \<and> shape_indicators no_repr ''2025-11-04'' [(''top_10_zones_congestionnees'', JList [JDict labelled_zone])]
       = Inr [(''top_10_zones_congestionnees'',
               JList [JDict [(''zone_fallback'', JStr ''Zone A''), (''date'', JStr ''2025-11-04'')]])]
   \<and> [(''zone_fallback'', JStr ''Zone A''), (''date'', JStr ''2025-11-04'')] \<noteq> labelled_zone"
  by (simp add: labelled_zone_def shape_defs)

text \<open>
  C5, amended. When shaping returns, for every zone record of
  \<open>top_10_zones_congestionnees\<close>: if \<open>zone_fallback\<close> was missing or falsy, it is now
  \<open>Arrondissement\<close> followed by the arrondissement as Python prints it when the
  record has an \<open>arrondissement\<close> other than \<open>Unknown\<close>, and \<open>Unknown\<close> otherwise; if
  \<open>zone_fallback\<close> was truthy, it is untouched and the record is its date-backfilled
  self, hence unchanged when its date was not the empty string.
\<close>

theorem zone_fallback_synthesis:
  assumes "shape_indicators repr date ind = Inr ind'"
    and "map_of ind ''top_10_zones_congestionnees'' = Some (JList xs)"
    and "i < length xs"
    and "xs ! i = JDict r"
  shows "\<exists>ys r'. map_of ind' ''top_10_zones_congestionnees'' = Some (JList ys)
     \<and> length ys = length xs \<and> ys ! i = JDict r'
     \<and> (needs_fallback r \<longrightarrow>
          map_of r' ''zone_fallback''
            = Some (JStr (case map_of r ''arrondissement'' of
                            None \<Rightarrow> ''Unknown''
                          | Some a \<Rightarrow> if a = JStr ''Unknown'' then ''Unknown''
                                      else ''Arrondissement '' @ py_str repr a)))
     \<and> (\<not> needs_fallback r \<longrightarrow>
          r' = backfill date r \<and> map_of r' ''zone_fallback'' = map_of r ''zone_fallback'')
     \<and> (\<not> needs_fallback r \<and> map_of r ''date'' \<noteq> Some (JStr []) \<longrightarrow> r' = r)"
proof -
  from shape_indicators_zones [OF assms(1,2)] obtain ys where
    ys: "map_of ind' ''top_10_zones_congestionnees'' = Some (JList ys)"
    and fe: "for_each (shape_zone repr date) xs = Inr ys"
    by blast
  from for_each_nth [OF fe assms(3)] assms(4) have len: "length ys = length xs"
    and sz: "shape_zone repr date (JDict r) = Inr (ys ! i)" by simp_all
  from shape_zone_record [OF sz] obtain r' where
    r': "ys ! i = JDict r'"
      "needs_fallback r \<longrightarrow>
          r' = AList.update ''zone_fallback''
                 (JStr (case map_of r ''arrondissement'' of
                          None \<Rightarrow> ''Unknown''
                        | Some a \<Rightarrow> if a = JStr ''Unknown'' then ''Unknown''
                                    else ''Arrondissement '' @ py_str repr a)) (backfill date r)"
      "\<not> needs_fallback r \<longrightarrow> r' = backfill date r"
    by blast
  have a: "needs_fallback r \<longrightarrow>
          map_of r' ''zone_fallback''
            = Some (JStr (case map_of r ''arrondissement'' of
                            None \<Rightarrow> ''Unknown''
                          | Some a \<Rightarrow> if a = JStr ''Unknown'' then ''Unknown''
                                      else ''Arrondissement '' @ py_str repr a))"
    using r'(2) by (auto simp: update_conv')
  have b: "\<not> needs_fallback r \<longrightarrow>
          r' = backfill date r \<and> map_of r' ''zone_fallback'' = map_of r ''zone_fallback''"
    using r'(3) by (simp add: backfill_other)
  have c: "\<not> needs_fallback r \<and> map_of r ''date'' \<noteq> Some (JStr []) \<longrightarrow> r' = r"
    using r'(3) by (simp add: backfill_id)
  from ys len r'(1) a b c show ?thesis by blast
qed

theorem zone_fallback_synthesis_witness:
  "shape_indicators no_repr ''2025-11-04'' traffic_indicators = Inr traffic_shaped
   \<and> needs_fallback [(''arrondissement'', JStr ''12''), (''date'', JStr [])]
   \<and> needs_fallback [(''arrondissement'', JStr ''Unknown'')]
   \<and> \<not> needs_fallback [(''zone_fallback'', JStr ''Zone A''), (''date'', JStr ''2025-01-01'')]
   \<and> map_of traffic_indicators ''top_10_zones_congestionnees''
        = Some (JList
            [JDict [(''arrondissement'', JStr ''12''), (''date'', JStr [])],
             JDict [(''arrondissement'', JStr ''Unknown'')],
             JDict [(''zone_fallback'', JStr ''Zone A''), (''date'', JStr ''2025-01-01'')]])
   \<and> map_of traffic_shaped ''top_10_zones_congestionnees''
        = Some (JList
            [JDict [(''arrondissement'', JStr ''12''), (''date'', JStr ''2025-11-04''),
                    (''zone_fallback'', JStr ''Arrondissement 12'')],
             JDict [(''arrondissement'', JStr ''Unknown''), (''zone_fallback'', JStr ''Unknown'')],
             JDict [(''zone_fallback'', JStr ''Zone A''), (''date'', JStr ''2025-01-01'')]])"
proof -
  have n1: "needs_fallback [(''arrondissement'', JStr ''12''), (''date'', JStr [])]"
    and n2: "needs_fallback [(''arrondissement'', JStr ''Unknown'')]"
    and n3: "\<not> needs_fallback [(''zone_fallback'', JStr ''Zone A''), (''date'', JStr ''2025-01-01'')]"
    by (simp_all add: needs_fallback_def)
  have z: "map_of traffic_indicators ''top_10_zones_congestionnees''
        = Some (JList
            [JDict [(''arrondissement'', JStr ''12''), (''date'', JStr [])],
             JDict [(''arrondissement'', JStr ''Unknown'')],
             JDict [(''zone_fallback'', JStr ''Zone A''), (''date'', JStr ''2025-01-01'')]])"
    by (simp add: traffic_indicators_def)
  have z': "map_of traffic_shaped ''top_10_zones_congestionnees''
        = Some (JList
            [JDict [(''arrondissement'', JStr ''12''), (''date'', JStr ''2025-11-04''),
                    (''zone_fallback'', JStr ''Arrondissement 12'')],
             JDict [(''arrondissement'', JStr ''Unknown''), (''zone_fallback'', JStr ''Unknown'')],
             JDict [(''zone_fallback'', JStr ''Zone A''), (''date'', JStr ''2025-01-01'')]])"
    by (simp add: traffic_shaped_def)
  have i: "0 < length
            [JDict [(''arrondissement'', JStr ''12''), (''date'', JStr [])],
             JDict [(''arrondissement'', JStr ''Unknown'')],
             JDict [(''zone_fallback'', JStr ''Zone A''), (''date'', JStr ''2025-01-01'')]]"
    by simp
  have r: "[JDict [(''arrondissement'', JStr ''12''), (''date'', JStr [])],
             JDict [(''arrondissement'', JStr ''Unknown'')],
             JDict [(''zone_fallback'', JStr ''Zone A''), (''date'', JStr ''2025-01-01'')]] ! 0
           = JDict [(''arrondissement'', JStr ''12''), (''date'', JStr [])]"
    by simp
  show ?thesis
    using zone_fallback_synthesis [OF traffic_shaping z i r]
    by (intro conjI) (rule traffic_shaping n1 n2 n3 z z')+
qed

subsection \<open>Helper facts on the export loop and the upload loop\<close>

lemma shape_results_keys:
  "shape_results repr date results = Inr shaped \<Longrightarrow> map fst shaped = map fst results"
proof (induction results arbitrary: shaped)
  case Nil
  then show ?case by simp
next
  case (Cons a results)
  obtain t r where a: "a = (t, r)" by (cases a)
  from Cons.prems a obtain r' rest' where
    "shape_results repr date results = Inr rest'" "shaped = (t, r') # rest'"
    by (auto split: sum.splits)
  with Cons.IH a show ?case by simp
qed

lemma backup_name_inj: "backup_name t date = backup_name t' date \<Longrightarrow> t = t'"
  by (simp add: backup_name_def)

lemma export_one_other:
  assumes "fst item \<noteq> t"
  shows "calls_for t (export_one ctx db aws date st item) = calls_for t st"
    and "map_of (backup_dir (export_one ctx db aws date st item)) (backup_name t date)
           = map_of (backup_dir st) (backup_name t date)"
proof -
  have n: "backup_name (fst item) date \<noteq> backup_name t date"
    using assms backup_name_inj by blast
  show "calls_for t (export_one ctx db aws date st item) = calls_for t st"
    using assms
    by (auto simp: export_one_def calls_for_def db_write_def Let_def split: option.splits)
  show "map_of (backup_dir (export_one ctx db aws date st item)) (backup_name t date)
           = map_of (backup_dir st) (backup_name t date)"
    using n
    by (auto simp: export_one_def db_write_def save_json_def update_conv' Let_def
        split: option.splits)
qed

lemma export_loop_other:
  assumes "t \<notin> fst ` set items"
  shows "calls_for t (foldl (export_one ctx db aws date) st items) = calls_for t st
    \<and> map_of (backup_dir (foldl (export_one ctx db aws date) st items)) (backup_name t date)
           = map_of (backup_dir st) (backup_name t date)"
  using assms
proof (induction items arbitrary: st)
  case Nil
  then show ?case by simp
next
  case (Cons a items)
  then have "fst a \<noteq> t" and "t \<notin> fst ` set items" by auto
  with Cons.IH [of "export_one ctx db aws date st a"] export_one_other [of a t ctx db aws date st]
  show ?case by simp
qed

lemma export_one_optimized:
  assumes "success r" "indicators r = Some ind" "ind \<noteq> []" "db \<noteq> None"
    "should_optimize_for_mongodb ctx t ind" "\<not> env_set aws"
  shows "calls_for t (export_one ctx db aws date st (t, r))
           = calls_for t st @ [\<lparr>call_metrics = JDict (optimize_metrics_for_storage ctx t ind),
                                 call_data_type = t, call_date = date\<rparr>]"
    and "map_of (backup_dir (export_one ctx db aws date st (t, r))) (backup_name t date)
           = Some (JDict ind)"
  using assms
  by (simp_all add: export_one_def calls_for_def db_write_def save_json_def update_conv' Let_def)




subsection \<open>C2: optimized copy to the backend, full copy to the local backup\<close>

text \<open>
  C2. For a data type whose (shaped) result is successful with non-empty indicators,
  when a backend was selected, the size-optimization predicate holds of these
  indicators and \<^verbatim>\<open>AWS_EXECUTION_ENV\<close> is unset: the export returns, the one call the
  backend receives for this data type carries the optimized indicators, and the local
  backup file of this data type and date holds the full indicators. The results are a
  dict: no data type occurs twice.
\<close>

theorem export_optimized_remote_full_local:
  assumes "shape_results (container_repr ctx) date results = Inr shaped"
    and "distinct (map fst results)"
    and "(t, r) \<in> set shaped"
    and "success r" and "indicators r = Some ind" and "ind \<noteq> []"
    and "get_database_service env = Inr svc"
    and "should_optimize_for_mongodb ctx t ind"
    and "aws_execution_env env = None"
  shows "\<exists>final. export_results ctx env date results backup0 = Inr final
     \<and> filter (\<lambda>c. call_data_type c = t) (db_calls final)
         = [\<lparr>call_metrics = JDict (optimize_metrics_for_storage ctx t ind),
             call_data_type = t, call_date = date\<rparr>]
     \<and> map_of (backup_dir final) (backup_name t date) = Some (JDict ind)"
proof -
  let ?step = "export_one ctx (Some svc) None date"
  let ?init = "\<lparr>db_calls = [], backup_dir = backup0, exported_count = 0\<rparr>"
  have ex: "export_results ctx env date results backup0 = Inr (foldl ?step ?init shaped)"
    using assms(1,7,9) by (simp add: export_results_def)
  have "distinct (map fst shaped)"
    using shape_results_keys [OF assms(1)] assms(2) by simp
  moreover from assms(3) obtain pre post where sp: "shaped = pre @ (t, r) # post"
    by (auto simp: in_set_conv_decomp)
  ultimately have npre: "t \<notin> fst ` set pre" and npost: "t \<notin> fst ` set post" by auto
  let ?s1 = "foldl ?step ?init pre"
  let ?s2 = "?step ?s1 (t, r)"
  have fin: "foldl ?step ?init shaped = foldl ?step ?s2 post" by (simp add: sp)
  have c1: "calls_for t ?s1 = []"
    using export_loop_other [OF npre, of ctx "Some svc" None date ?init] by (simp add: calls_for_def)
  have ne: "\<not> env_set None" by (simp add: env_set_def)
  have c2: "calls_for t ?s2 = [\<lparr>call_metrics = JDict (optimize_metrics_for_storage ctx t ind),
             call_data_type = t, call_date = date\<rparr>]"
    using export_one_optimized(1) [OF assms(4,5,6) _ assms(8) ne, of "Some svc" date ?s1] c1 by simp
  have b2: "map_of (backup_dir ?s2) (backup_name t date) = Some (JDict ind)"
    using export_one_optimized(2) [OF assms(4,5,6) _ assms(8) ne, of "Some svc" date ?s1] by simp
  from export_loop_other [OF npost, of ctx "Some svc" None date ?s2] c2 b2 fin
  have "calls_for t (foldl ?step ?init shaped)
          = [\<lparr>call_metrics = JDict (optimize_metrics_for_storage ctx t ind),
             call_data_type = t, call_date = date\<rparr>]"
    and "map_of (backup_dir (foldl ?step ?init shaped)) (backup_name t date) = Some (JDict ind)"
    by simp_all
  with ex show ?thesis by (simp add: calls_for_def)
qed

theorem export_optimized_remote_full_local_witness:
  "shape_results (container_repr example_ctx) ''2025-11-04'' example_results = Inr example_shaped
   \<and> distinct (map fst example_results)
   \<and> (''traffic'', \<lparr>success = True, indicators = Some traffic_shaped\<rparr>) \<in> set example_shaped
   \<and> traffic_shaped \<noteq> []
   \<and> get_database_service dev_env = Inr MongoDBService
   \<and> should_optimize_for_mongodb example_ctx ''traffic'' traffic_shaped
   \<and> aws_execution_env dev_env = None
   \<and> export_results example_ctx dev_env ''2025-11-04'' example_results [] = Inr example_final
   \<and> map_of (backup_dir example_final) (backup_name ''traffic'' ''2025-11-04'')
        = Some (JDict traffic_shaped)"
proof -
  have sh: "shape_results (container_repr example_ctx) ''2025-11-04'' example_results
              = Inr example_shaped"
    by (simp add: example_ctx_def example_results_def example_shaped_def shape_result_def
        traffic_shaping) (simp add: stations_indicators_def traffic_indicators_def shape_defs)
  have di: "distinct (map fst example_results)" by (simp add: example_results_def)
  have el: "(''traffic'', \<lparr>success = True, indicators = Some traffic_shaped\<rparr>) \<in> set example_shaped"
    by (simp add: example_shaped_def)
  have su: "success \<lparr>success = True, indicators = Some traffic_shaped\<rparr>" by simp
  have ind: "indicators \<lparr>success = True, indicators = Some traffic_shaped\<rparr> = Some traffic_shaped"
    by simp
  have ne: "traffic_shaped \<noteq> []" by (simp add: traffic_shaped_def)
  have db: "get_database_service dev_env = Inr MongoDBService"
    by (simp add: dev_env_def get_database_service_def path_exists_def local_bucket_def)
  have so: "should_optimize_for_mongodb example_ctx ''traffic'' traffic_shaped"
    by (simp add: example_ctx_def)
  have aws: "aws_execution_env dev_env = None" by (simp add: dev_env_def)
  have run: "export_results example_ctx dev_env ''2025-11-04'' example_results [] = Inr example_final"
    unfolding export_results_def sh
    by (simp add: db aws example_shaped_def example_final_def example_ctx_def export_one_def
        db_write_def save_json_def backup_name_def env_set_def traffic_shaped_def
        stations_indicators_def)
  have bk: "map_of (backup_dir example_final) (backup_name ''traffic'' ''2025-11-04'')
        = Some (JDict traffic_shaped)"
    by (simp add: example_final_def backup_name_def)
  show ?thesis
    using export_optimized_remote_full_local [OF sh di el su ind ne db so aws, of "[]"]
    by (intro conjI) (rule sh di el ne db so aws run bk)+
qed

subsection \<open>C9: per-file failures in the manual sync tool\<close>



end
